theory Spec2Isabelle
  imports Main "HOL-Library.Word"
begin

section \<open>JavaScript strings\<close>

text \<open>
  A JavaScript string is a sequence of UTF-16 code units and \<^verbatim>\<open>.length\<close> counts code units,
  so a string is a list of 16-bit words. \<open>lit\<close> turns an ASCII literal of the source into
  such a string.
\<close>

type_synonym jschar = "16 word"
type_synonym jsstring = "jschar list"

definition lit :: "string \<Rightarrow> jsstring" where
  "lit s = map of_char s"

text \<open>
  \<^verbatim>\<open>String.prototype.trim\<close> removes the ECMAScript WhiteSpace and LineTerminator code points
  from both ends: TAB, LF, VT, FF, CR, SPACE, NBSP, U+1680, U+2000 to U+200A, U+2028, U+2029,
  U+202F, U+205F, U+3000 and U+FEFF.
\<close>

definition isWhiteSpace :: "jschar \<Rightarrow> bool" where
  "isWhiteSpace c =
     (c = 0x0009 \<or> c = 0x000A \<or> c = 0x000B \<or> c = 0x000C \<or> c = 0x000D \<or> c = 0x0020
      \<or> c = 0x00A0 \<or> c = 0x1680 \<or> (0x2000 \<le> c \<and> c \<le> 0x200A) \<or> c = 0x2028
      \<or> c = 0x2029 \<or> c = 0x202F \<or> c = 0x205F \<or> c = 0x3000 \<or> c = 0xFEFF)"

definition trim :: "jsstring \<Rightarrow> jsstring" where
  "trim s = rev (dropWhile isWhiteSpace (rev (dropWhile isWhiteSpace s)))"

section \<open>The sanitizer\<close>

text \<open>
  Modelled from the spec: \<^verbatim>\<open>DOMPurify.sanitize\<close> belongs to the third-party package
  \<^verbatim>\<open>isomorphic-dompurify\<close>, whose code the repository does not contain. The spec sums it
  up as "stripping all markup/script content, leaving plain text". The source calls it with
  no configuration, so the library's default allow-list applies, and the model follows that
  call rather than the summary where the two differ:
  \<^item> a string without a less-than sign is returned as it is;
  \<^item> a \<^verbatim>\<open>script\<close> element is removed together with its content;
  \<^item> the tags of the elements in \<open>keptTags\<close> (a sample of the allow-list) stay, in lower
    case, closed when the input ends or an enclosing element closes;
  \<^item> every other tag and every comment is removed and the text around it stays;
  \<^item> text is written back with the escapes \<^verbatim>\<open>&amp;\<close>, \<^verbatim>\<open>&lt;\<close>, \<^verbatim>\<open>&gt;\<close> and
    \<^verbatim>\<open>&nbsp;\<close>, so a less-than sign that opens no tag becomes \<^verbatim>\<open>&lt;\<close>.

  The model is a scanner, not an HTML parser: it drops all attributes, ends a comment at
  the first greater-than sign, reads no character references and does not repair
  misnested tags. The validators take the sanitizer as an argument, so their general
  properties hold for every sanitizer; this one is used where a concrete output is
  computed.
\<close>

definition toLowerASCII :: "jschar \<Rightarrow> jschar" where
  "toLowerASCII c = (if 0x41 \<le> c \<and> c \<le> 0x5A then c + 0x20 else c)"

definition startsWithCI :: "string \<Rightarrow> jsstring \<Rightarrow> bool" where
  "startsWithCI p s = (map toLowerASCII (take (length p) s) = lit p)"

definition isAsciiLetter :: "jschar \<Rightarrow> bool" where
  "isAsciiLetter c = ((0x41 \<le> c \<and> c \<le> 0x5A) \<or> (0x61 \<le> c \<and> c \<le> 0x7A))"

definition endsTagName :: "jschar \<Rightarrow> bool" where
  "endsTagName c = (c = 0x09 \<or> c = 0x0A \<or> c = 0x0C \<or> c = 0x0D \<or> c = 0x20 \<or> c = 0x2F)"

definition keptTags :: "jsstring list" where
  "keptTags = map lit [''b'', ''i'', ''u'', ''s'', ''em'', ''strong'', ''small'', ''sub'', ''sup'',
                        ''code'', ''span'', ''mark'']"

definition escapeText :: "jschar \<Rightarrow> jsstring" where
  "escapeText c =
     (if c = 0x26 then lit ''&amp;''
      else if c = 0x3C then lit ''&lt;''
      else if c = 0x3E then lit ''&gt;''
      else if c = 0xA0 then lit ''&nbsp;''
      else [c])"

definition closeAll :: "jsstring list \<Rightarrow> jsstring" where
  "closeAll opened = concat (map (\<lambda>name. lit ''</'' @ name @ lit ''>'') opened)"

datatype scan_mode =
    InText | InName bool jsstring | InAttributes bool jsstring | InComment | InScript

definition tagOutput :: "bool \<Rightarrow> jsstring \<Rightarrow> jsstring list \<Rightarrow> jsstring" where
  "tagOutput closing name opened =
     (if closing
      then (if name \<in> set opened
            then closeAll (takeWhile (\<lambda>n. n \<noteq> name) opened @ [name]) else [])
      else (if name \<in> set keptTags then lit ''<'' @ name @ lit ''>'' else []))"

definition tagOpened :: "bool \<Rightarrow> jsstring \<Rightarrow> jsstring list \<Rightarrow> jsstring list" where
  "tagOpened closing name opened =
     (if closing
      then (if name \<in> set opened then tl (dropWhile (\<lambda>n. n \<noteq> name) opened) else opened)
      else (if name \<in> set keptTags then name # opened else opened))"

definition tagMode :: "bool \<Rightarrow> jsstring \<Rightarrow> scan_mode" where
  "tagMode closing name = (if \<not> closing \<and> name = lit ''script'' then InScript else InText)"

fun scan :: "scan_mode \<Rightarrow> jsstring list \<Rightarrow> jsstring \<Rightarrow> jsstring" where
  "scan m opened [] = closeAll opened"
| "scan InText opened (c # cs) =
     (if c = 0x3C
      then (case cs of
              [] \<Rightarrow> lit ''&lt;'' @ closeAll opened
            | d # ds \<Rightarrow>
                if isAsciiLetter d then scan (InName False []) opened cs
                else if d = 0x2F
                then (case ds of
                        [] \<Rightarrow> lit ''&lt;/'' @ closeAll opened
                      | e # es \<Rightarrow>
                          if isAsciiLetter e then scan (InName True []) opened ds
                          else if e = 0x3E then scan InText opened es
                          else scan InComment opened ds)
                else if d = 0x21 \<or> d = 0x3F then scan InComment opened ds
                else lit ''&lt;'' @ scan InText opened cs)
      else escapeText c @ scan InText opened cs)"
| "scan (InName closing name) opened (c # cs) =
     (if c = 0x3E
      then tagOutput closing name opened
           @ scan (tagMode closing name) (tagOpened closing name opened) cs
      else if endsTagName c then scan (InAttributes closing name) opened cs
      else scan (InName closing (name @ [toLowerASCII c])) opened cs)"
| "scan (InAttributes closing name) opened (c # cs) =
     (if c = 0x3E
      then tagOutput closing name opened
           @ scan (tagMode closing name) (tagOpened closing name opened) cs
      else scan (InAttributes closing name) opened cs)"
| "scan InComment opened (c # cs) =
     (if c = 0x3E then scan InText opened cs else scan InComment opened cs)"
| "scan InScript opened (c # cs) =
     (if c = 0x3C \<and> startsWithCI ''/script'' cs
      then scan (InAttributes True (lit ''script'')) opened cs
      else scan InScript opened cs)"

definition DOMPurify_sanitize :: "jsstring \<Rightarrow> jsstring" where
  "DOMPurify_sanitize dirty = (if 0x3C \<in> set dirty then scan InText [] dirty else dirty)"

section \<open>Input validation (input-validation.ts)\<close>

text \<open>
  \<^verbatim>\<open>ValidationResult\<close> has the optional fields \<^verbatim>\<open>error\<close> and \<^verbatim>\<open>sanitizedValue\<close>. For options the
  source stores \<^verbatim>\<open>JSON.stringify(sanitizedOptions)\<close> and every caller reads it back with
  \<^verbatim>\<open>JSON.parse\<close>; the model keeps the list that this JSON text denotes.
\<close>

record 'a ValidationResult =
  isValid :: bool
  error :: "string option"
  sanitizedValue :: "'a option"

definition validateQuestion ::
  "(jsstring \<Rightarrow> jsstring) \<Rightarrow> jsstring \<Rightarrow> jsstring ValidationResult" where
  "validateQuestion sanitize question =
     (let trimmedQuestion = trim question in
      if trimmedQuestion = []
      then \<lparr>isValid = False, error = Some ''Poll question cannot be empty'',
            sanitizedValue = None\<rparr>
      else if length trimmedQuestion < 5
      then \<lparr>isValid = False, error = Some ''Poll question must be at least 5 characters long'',
            sanitizedValue = None\<rparr>
      else if length trimmedQuestion > 200
      then \<lparr>isValid = False, error = Some ''Poll question cannot exceed 200 characters'',
            sanitizedValue = None\<rparr>
      else \<lparr>isValid = True, error = None,
            sanitizedValue = Some (sanitize trimmedQuestion)\<rparr>)"

text \<open>The \<^verbatim>\<open>for (const option of filteredOptions)\<close> loop with its early return.\<close>

fun optionTooLong :: "jsstring list \<Rightarrow> bool" where
  "optionTooLong [] = False"
| "optionTooLong (option # rest) = (if length option > 100 then True else optionTooLong rest)"

definition validateOptions ::
  "(jsstring \<Rightarrow> jsstring) \<Rightarrow> jsstring list \<Rightarrow> jsstring list ValidationResult" where
  "validateOptions sanitize options =
     (let filteredOptions = filter (\<lambda>opt. opt \<noteq> []) (map trim options) in
      if length filteredOptions < 2
      then \<lparr>isValid = False, error = Some ''Poll must have at least 2 non-empty options'',
            sanitizedValue = None\<rparr>
      else if card (set filteredOptions) \<noteq> length filteredOptions
      then \<lparr>isValid = False, error = Some ''Poll options must be unique'',
            sanitizedValue = None\<rparr>
      else if optionTooLong filteredOptions
      then \<lparr>isValid = False, error = Some ''Poll options cannot exceed 100 characters'',
            sanitizedValue = None\<rparr>
      else \<lparr>isValid = True, error = None,
            sanitizedValue = Some (map sanitize filteredOptions)\<rparr>)"

section \<open>Environment variables (env-validation.ts) and the server client\<close>

text \<open>
  \<^verbatim>\<open>process.env\<close> maps names to strings; an unset name reads as \<^verbatim>\<open>undefined\<close>. A thrown
  \<^verbatim>\<open>new Error(message)\<close> is the left summand of the result.
\<close>

type_synonym process_env = "string \<rightharpoonup> string"

datatype exn = JsError string

definition getEnvVariable :: "process_env \<Rightarrow> string \<Rightarrow> string option \<Rightarrow> exn + string" where
  "getEnvVariable env key defaultValue =
     (case (if env key = Some [] then None else env key) of
        None \<Rightarrow>
          (case defaultValue of
             Some d \<Rightarrow> Inr d
           | None \<Rightarrow> Inl (JsError (''Environment variable '' @ key @ '' is not set'')))
      | Some v \<Rightarrow> Inr v)"

text \<open>
  The hosted backend is reached through the client that the library function
  \<^verbatim>\<open>createServerClient(url, key, ...)\<close> returns. The library is third-party code, so the
  client is a parameter: a record of the answers the backend gives to the requests the
  actions send, whatever they are. Every answer has the library's shape
  \<^verbatim>\<open>{ data, error }\<close>, both nullable. The backend changes its tables only on the requests it
  receives, so an action that sends no write leaves them as they are.
\<close>

record backend_error =
  err_code :: string
  err_message :: string

record 'a response =
  resp_data :: "'a option"
  resp_error :: "backend_error option"

record auth_user =
  u_id :: string
  u_email :: string

record auth_response =
  auth_user :: "auth_user option"
  auth_error :: "backend_error option"

text \<open>The interfaces \<^verbatim>\<open>PollOption\<close> and \<^verbatim>\<open>Poll\<close> of types/index.ts; a missing \<^verbatim>\<open>votes\<close> is \<open>None\<close>.\<close>

record PollOption =
  o_id :: string
  o_text :: jsstring
  o_votes :: "int option"

record Poll =
  p_id :: string
  p_question :: jsstring
  p_description :: "jsstring option"
  p_options :: "PollOption list"
  p_user_id :: string
  p_created_at :: string
  p_updated_at :: "string option"

record VoteRow =
  v_id :: string
  v_user_id :: string
  v_poll_id :: string
  v_option_id :: string
  v_created_at :: string

record RoleRow =
  role :: string

text \<open>A column value of an inserted row, and the row as the object literal lists it.\<close>

datatype column_value = Text string | Number int

type_synonym insert_row = "(string \<times> column_value) list"

type_synonym cookie = "string \<times> string \<times> string"

record backend =
  auth_getUser :: auth_response
  auth_getUser_setAll :: "cookie list list"
  auth_signInWithPassword :: "string \<Rightarrow> string \<Rightarrow> backend_error option"
  auth_signUp :: "string \<Rightarrow> string \<Rightarrow> string \<Rightarrow> backend_error option"
  polls_select_by_id :: "string \<Rightarrow> Poll response"
  polls_select_options :: "string \<Rightarrow> PollOption list response"
  polls_update_options :: "string \<Rightarrow> PollOption list \<Rightarrow> backend_error option"
  user_roles_select_role :: "string \<Rightarrow> RoleRow response"
  votes_select :: "string \<Rightarrow> string \<Rightarrow> VoteRow response"
  votes_insert :: "insert_row \<Rightarrow> backend_error option"

text \<open>
  \<open>auth_getUser_setAll\<close> lists the cookie batches the client hands to the \<^verbatim>\<open>setAll\<close>
  callback while it resolves the user (a refreshed session). The requests an action sends
  are recorded in order; \<open>isWrite\<close> marks those that change a table.
\<close>

datatype call =
    Auth_getUser
  | Auth_signInWithPassword string string
  | Auth_signUp string string string
  | Polls_select_by_id string
  | Polls_select_options string
  | Polls_update_options string "PollOption list"
  | User_roles_select_role string
  | Votes_select string string
  | Votes_insert insert_row
  | RevalidatePath string

fun isWrite :: "call \<Rightarrow> bool" where
  "isWrite (Votes_insert row) = True"
| "isWrite (Polls_update_options pollId opts) = True"
| "isWrite c = False"

fun onVotesOrPolls :: "call \<Rightarrow> bool" where
  "onVotesOrPolls (Votes_select pollId userId) = True"
| "onVotesOrPolls (Votes_insert row) = True"
| "onVotesOrPolls (Polls_select_by_id pollId) = True"
| "onVotesOrPolls (Polls_select_options pollId) = True"
| "onVotesOrPolls (Polls_update_options pollId opts) = True"
| "onVotesOrPolls c = False"

definition createClient :: "process_env \<Rightarrow> (string \<Rightarrow> string \<Rightarrow> backend) \<Rightarrow> exn + backend" where
  "createClient env createServerClient =
     (case getEnvVariable env ''NEXT_PUBLIC_SUPABASE_URL'' None of
        Inl e \<Rightarrow> Inl e
      | Inr supabaseUrl \<Rightarrow>
          (case getEnvVariable env ''NEXT_PUBLIC_SUPABASE_ANON_KEY'' None of
             Inl e \<Rightarrow> Inl e
           | Inr supabaseAnonKey \<Rightarrow> Inr (createServerClient supabaseUrl supabaseAnonKey)))"

section \<open>Authentication actions (auth-actions.ts)\<close>

text \<open>
  An action returns \<^verbatim>\<open>{ error: message }\<close>, \<^verbatim>\<open>{ error: null }\<close> or \<^verbatim>\<open>{ success: true }\<close>;
  \<open>Inl\<close> is an exception that leaves the action uncaught.
\<close>

datatype action_result = ErrorResult "string option" | SuccessResult bool

record LoginFormData =
  login_email :: string
  login_password :: string

record RegisterFormData =
  reg_name :: string
  reg_email :: string
  reg_password :: string

text \<open>
  The documented \<^verbatim>\<open>login\<close> wraps its whole body in \<^verbatim>\<open>try\<close>/\<^verbatim>\<open>catch\<close> and answers every
  exception with one fixed message; \<^verbatim>\<open>register\<close>, right below it, has no handler.
\<close>

definition login ::
  "process_env \<Rightarrow> (string \<Rightarrow> string \<Rightarrow> backend) \<Rightarrow> LoginFormData
     \<Rightarrow> exn + (action_result \<times> call list)" where
  "login env createServerClient data =
     (case createClient env createServerClient of
        Inl e \<Rightarrow>
          Inr (ErrorResult (Some
            ''Authentication service unavailable. Please check your Supabase configuration.''), [])
      | Inr supabase \<Rightarrow>
          Inr (case auth_signInWithPassword supabase (login_email data) (login_password data) of
                 Some err \<Rightarrow>
                   (ErrorResult (Some (err_message err)),
                    [Auth_signInWithPassword (login_email data) (login_password data)])
               | None \<Rightarrow>
                   (ErrorResult None,
                    [Auth_signInWithPassword (login_email data) (login_password data)])))"

definition register ::
  "process_env \<Rightarrow> (string \<Rightarrow> string \<Rightarrow> backend) \<Rightarrow> RegisterFormData
     \<Rightarrow> exn + (action_result \<times> call list)" where
  "register env createServerClient data =
     (case createClient env createServerClient of
        Inl e \<Rightarrow> Inl e
      | Inr supabase \<Rightarrow>
          Inr (case auth_signUp supabase (reg_email data) (reg_password data) (reg_name data) of
                 Some err \<Rightarrow>
                   (ErrorResult (Some (err_message err)),
                    [Auth_signUp (reg_email data) (reg_password data) (reg_name data)])
               | None \<Rightarrow>
                   (ErrorResult None,
                    [Auth_signUp (reg_email data) (reg_password data) (reg_name data)])))"

section \<open>Poll actions (poll-actions.ts)\<close>

text \<open>
  \<^verbatim>\<open>getPollById\<close> returns \<^verbatim>\<open>{ poll, error }\<close> or \<^verbatim>\<open>{ poll, error, isOwner }\<close>. The \<^verbatim>\<open>poll\<close> field is
  either the fetched row itself or a new object with the four fields \<^verbatim>\<open>id\<close>, \<^verbatim>\<open>question\<close>,
  \<^verbatim>\<open>options\<close> and \<^verbatim>\<open>created_at\<close>.
\<close>

record PublicPoll =
  pub_id :: string
  pub_question :: jsstring
  pub_options :: "PollOption list"
  pub_created_at :: string

datatype poll_projection = Full Poll | Public PublicPoll

record getPollById_result =
  poll :: "poll_projection option"
  poll_error :: "string option"
  isOwner :: "bool option"

definition limited :: "Poll \<Rightarrow> PublicPoll" where
  "limited data =
     \<lparr>pub_id = p_id data, pub_question = p_question data, pub_options = p_options data,
      pub_created_at = p_created_at data\<rparr>"

definition getPollById ::
  "process_env \<Rightarrow> (string \<Rightarrow> string \<Rightarrow> backend) \<Rightarrow> string
     \<Rightarrow> exn + (getPollById_result \<times> call list)" where
  "getPollById env createServerClient pollId =
     (case createClient env createServerClient of
        Inl e \<Rightarrow> Inl e
      | Inr supabase \<Rightarrow>
          Inr (let fetched = polls_select_by_id supabase pollId in
               case resp_error fetched of
                 Some err \<Rightarrow>
                   (\<lparr>poll = None, poll_error = Some (err_message err), isOwner = None\<rparr>,
                    [Polls_select_by_id pollId])
               | None \<Rightarrow>
                   (let user = auth_user (auth_getUser supabase) in
                    case resp_data fetched of
                      None \<Rightarrow>
                        (\<lparr>poll = None, poll_error = Some ''Poll not found'', isOwner = None\<rparr>,
                         [Polls_select_by_id pollId, Auth_getUser])
                    | Some data \<Rightarrow>
                        (case user of
                           None \<Rightarrow>
                             (\<lparr>poll = Some (Public (limited data)), poll_error = None,
                               isOwner = Some False\<rparr>,
                              [Polls_select_by_id pollId, Auth_getUser])
                         | Some u \<Rightarrow>
                             (let owner = (u_id u = p_user_id data) in
                              if \<not> owner
                              then
                                (let roleData = resp_data (user_roles_select_role supabase (u_id u));
                                     isAdmin = (case roleData of
                                                  Some r \<Rightarrow> role r = ''admin''
                                                | None \<Rightarrow> False) in
                                 if \<not> isAdmin
                                 then (\<lparr>poll = Some (Public (limited data)), poll_error = None,
                                        isOwner = Some False\<rparr>,
                                       [Polls_select_by_id pollId, Auth_getUser,
                                        User_roles_select_role (u_id u)])
                                 else (\<lparr>poll = Some (Full data), poll_error = None,
                                        isOwner = Some owner\<rparr>,
                                       [Polls_select_by_id pollId, Auth_getUser,
                                        User_roles_select_role (u_id u)]))
                              else (\<lparr>poll = Some (Full data), poll_error = None,
                                     isOwner = Some owner\<rparr>,
                                    [Polls_select_by_id pollId, Auth_getUser]))))))"

text \<open>
  The sources hold two functions named \<^verbatim>\<open>submitVote\<close>. The first takes an option index and
  only inserts a row into \<^verbatim>\<open>votes\<close>; it is \<open>submitVote_index\<close> here. The second takes an option
  id and also rewrites the vote counters stored in the poll row; it keeps the name.
\<close>

definition submitVote_index ::
  "process_env \<Rightarrow> (string \<Rightarrow> string \<Rightarrow> backend) \<Rightarrow> string \<Rightarrow> int
     \<Rightarrow> exn + (action_result \<times> call list)" where
  "submitVote_index env createServerClient pollId optionIndex =
     (case createClient env createServerClient of
        Inl e \<Rightarrow> Inl e
      | Inr supabase \<Rightarrow>
          Inr (case auth_error (auth_getUser supabase) of
                 Some userError \<Rightarrow> (ErrorResult (Some (err_message userError)), [Auth_getUser])
               | None \<Rightarrow>
                   (case auth_user (auth_getUser supabase) of
                      None \<Rightarrow> (ErrorResult (Some ''You must be logged in to vote.''), [Auth_getUser])
                    | Some user \<Rightarrow>
                        (let existing = votes_select supabase pollId (u_id user);
                             existingVote = resp_data existing;
                             row = [(''poll_id'', Text pollId), (''user_id'', Text (u_id user)),
                                    (''option_index'', Number optionIndex)] in
                         case (case resp_error existing of
                                 Some voteCheckError \<Rightarrow>
                                   if err_code voteCheckError \<noteq> ''PGRST116''
                                   then Some voteCheckError else None
                               | None \<Rightarrow> None) of
                           Some voteCheckError \<Rightarrow>
                             (ErrorResult (Some (err_message voteCheckError)),
                              [Auth_getUser, Votes_select pollId (u_id user)])
                         | None \<Rightarrow>
                             if existingVote \<noteq> None
                             then (ErrorResult (Some ''You have already voted on this poll.''),
                                   [Auth_getUser, Votes_select pollId (u_id user)])
                             else
                               (case votes_insert supabase row of
                                  Some err \<Rightarrow>
                                    (ErrorResult (Some (err_message err)),
                                     [Auth_getUser, Votes_select pollId (u_id user),
                                      Votes_insert row])
                                | None \<Rightarrow>
                                    (ErrorResult None,
                                     [Auth_getUser, Votes_select pollId (u_id user),
                                      Votes_insert row]))))))"

text \<open>The callback of \<^verbatim>\<open>poll.options.map\<close>: \<^verbatim>\<open>(option.votes || 0) + 1\<close> for the chosen option.\<close>

definition countVote :: "string \<Rightarrow> PollOption \<Rightarrow> PollOption" where
  "countVote optionId option =
     (if o_id option = optionId
      then option\<lparr>o_votes := Some ((case o_votes option of Some n \<Rightarrow> n | None \<Rightarrow> 0) + 1)\<rparr>
      else option)"

definition submitVote ::
  "process_env \<Rightarrow> (string \<Rightarrow> string \<Rightarrow> backend) \<Rightarrow> string \<Rightarrow> string
     \<Rightarrow> exn + (action_result \<times> call list)" where
  "submitVote env createServerClient pollId optionId =
     (case createClient env createServerClient of
        Inl e \<Rightarrow> Inl e
      | Inr supabase \<Rightarrow>
          Inr (case auth_error (auth_getUser supabase) of
                 Some userError \<Rightarrow> (ErrorResult (Some (err_message userError)), [Auth_getUser])
               | None \<Rightarrow>
                   (case auth_user (auth_getUser supabase) of
                      None \<Rightarrow> (ErrorResult (Some ''You must be logged in to vote.''), [Auth_getUser])
                    | Some user \<Rightarrow>
                        (let existingVote = resp_data (votes_select supabase pollId (u_id user));
                             row = [(''user_id'', Text (u_id user)), (''poll_id'', Text pollId),
                                    (''option_id'', Text optionId)] in
                         if existingVote \<noteq> None
                         then (ErrorResult (Some ''You have already voted on this poll.''),
                               [Auth_getUser, Votes_select pollId (u_id user)])
                         else
                           (case resp_data (polls_select_options supabase pollId) of
                              None \<Rightarrow>
                                (ErrorResult (Some ''Poll not found.''),
                                 [Auth_getUser, Votes_select pollId (u_id user),
                                  Polls_select_options pollId])
                            | Some options \<Rightarrow>
                                (let updatedOptions = map (countVote optionId) options in
                                 case votes_insert supabase row of
                                   Some voteError \<Rightarrow>
                                     (ErrorResult (Some (err_message voteError)),
                                      [Auth_getUser, Votes_select pollId (u_id user),
                                       Polls_select_options pollId, Votes_insert row])
                                 | None \<Rightarrow>
                                     (case polls_update_options supabase pollId updatedOptions of
                                        Some updateError \<Rightarrow>
                                          (ErrorResult (Some (err_message updateError)),
                                           [Auth_getUser, Votes_select pollId (u_id user),
                                            Polls_select_options pollId, Votes_insert row,
                                            Polls_update_options pollId updatedOptions])
                                      | None \<Rightarrow>
                                          (SuccessResult True,
                                           [Auth_getUser, Votes_select pollId (u_id user),
                                            Polls_select_options pollId, Votes_insert row,
                                            Polls_update_options pollId updatedOptions,
                                            RevalidatePath (''/polls/'' @ pollId)]))))))))"

section \<open>Admin middleware (admin-middleware.ts, middleware.ts)\<close>

text \<open>
  A request carries its URL and its cookies. A response either lets the request through
  (\<^verbatim>\<open>NextResponse.next({ request })\<close>) or redirects, and has its own cookies to be set in the
  browser: name to value and options.
\<close>

record url =
  pathname :: string
  search :: string

record NextRequest =
  nextUrl :: url
  request_cookies :: "string \<rightharpoonup> string"

datatype response_kind = Next NextRequest | Redirect url

record NextResponse =
  kind :: response_kind
  response_cookies :: "string \<rightharpoonup> (string \<times> string)"

definition NextResponse_next :: "NextRequest \<Rightarrow> NextResponse" where
  "NextResponse_next request = \<lparr>kind = Next request, response_cookies = Map.empty\<rparr>"

definition NextResponse_redirect :: "url \<Rightarrow> NextResponse" where
  "NextResponse_redirect target = \<lparr>kind = Redirect target, response_cookies = Map.empty\<rparr>"

text \<open>
  The \<^verbatim>\<open>setAll\<close> callback: it writes the cookies into the request, replaces \<^verbatim>\<open>response\<close> by a
  fresh \<^verbatim>\<open>NextResponse.next({ request })\<close> and sets the cookies on that response.
\<close>

definition setAll :: "cookie list \<Rightarrow> NextRequest \<times> NextResponse \<Rightarrow> NextRequest \<times> NextResponse" where
  "setAll cookiesToSet state =
     (let request = fold (\<lambda>(name, val, opts) r.
                            r\<lparr>request_cookies := (request_cookies r)(name \<mapsto> val)\<rparr>)
                      cookiesToSet (fst state);
          response = fold (\<lambda>(name, val, opts) r.
                             r\<lparr>response_cookies := (response_cookies r)(name \<mapsto> (val, opts))\<rparr>)
                       cookiesToSet (NextResponse_next request)
      in (request, response))"

definition checkAdminAccess ::
  "process_env \<Rightarrow> (string \<Rightarrow> string \<Rightarrow> backend) \<Rightarrow> NextRequest \<Rightarrow> NextResponse" where
  "checkAdminAccess env createServerClient request0 =
     (let response0 = NextResponse_next request0 in
      case (if env ''NEXT_PUBLIC_SUPABASE_URL'' = Some [] then None
            else env ''NEXT_PUBLIC_SUPABASE_URL'') of
        None \<Rightarrow> NextResponse_redirect ((nextUrl request0)\<lparr>pathname := ''/login''\<rparr>)
      | Some supabaseUrl \<Rightarrow>
          (case (if env ''NEXT_PUBLIC_SUPABASE_ANON_KEY'' = Some [] then None
                 else env ''NEXT_PUBLIC_SUPABASE_ANON_KEY'') of
             None \<Rightarrow> NextResponse_redirect ((nextUrl request0)\<lparr>pathname := ''/login''\<rparr>)
           | Some supabaseAnonKey \<Rightarrow>
               (let supabase = createServerClient supabaseUrl supabaseAnonKey;
                    state = fold setAll (auth_getUser_setAll supabase) (request0, response0);
                    request = fst state;
                    response = snd state in
                case auth_user (auth_getUser supabase) of
                  None \<Rightarrow> NextResponse_redirect ((nextUrl request)\<lparr>pathname := ''/login''\<rparr>)
                | Some user \<Rightarrow>
                    (let looked = user_roles_select_role supabase (u_id user) in
                     if resp_error looked \<noteq> None
                        \<or> resp_data looked = None
                        \<or> map_option role (resp_data looked) \<noteq> Some ''admin''
                     then NextResponse_redirect ((nextUrl request)\<lparr>pathname := ''/unauthorized''\<rparr>)
                     else response))))"

text \<open>
  \<^verbatim>\<open>updateSession\<close> is imported from another module (lib/supabase/middleware); it is a
  parameter of \<^verbatim>\<open>middleware\<close>.
\<close>

definition middleware ::
  "(NextRequest \<Rightarrow> NextResponse) \<Rightarrow> process_env \<Rightarrow> (string \<Rightarrow> string \<Rightarrow> backend)
     \<Rightarrow> NextRequest \<Rightarrow> NextResponse" where
  "middleware updateSession env createServerClient request =
     (if take (length ''/admin'') (pathname (nextUrl request)) = ''/admin''
      then checkAdminAccess env createServerClient request
      else updateSession request)"

section \<open>Example backends\<close>

text \<open>
  A backend that knows no user, no poll, no vote and no role, and accepts every write;
  the examples below change the answers they need.
\<close>

definition no_rows :: "backend_error" where
  "no_rows = \<lparr>err_code = ''PGRST116'',
              err_message = ''JSON object requested, multiple (or no) rows returned''\<rparr>"

definition idle_backend :: backend where
  "idle_backend =
     \<lparr>auth_getUser = \<lparr>auth_user = None, auth_error = None\<rparr>,
      auth_getUser_setAll = [],
      auth_signInWithPassword = (\<lambda>email password. None),
      auth_signUp = (\<lambda>email password name. None),
      polls_select_by_id = (\<lambda>pollId. \<lparr>resp_data = None, resp_error = Some no_rows\<rparr>),
      polls_select_options = (\<lambda>pollId. \<lparr>resp_data = None, resp_error = Some no_rows\<rparr>),
      polls_update_options = (\<lambda>pollId opts. None),
      user_roles_select_role = (\<lambda>userId. \<lparr>resp_data = None, resp_error = Some no_rows\<rparr>),
      votes_select = (\<lambda>pollId userId. \<lparr>resp_data = None, resp_error = Some no_rows\<rparr>),
      votes_insert = (\<lambda>row. None)\<rparr>"

definition configured :: process_env where
  "configured = [''NEXT_PUBLIC_SUPABASE_URL'' \<mapsto> ''https://project.supabase.co'',
                 ''NEXT_PUBLIC_SUPABASE_ANON_KEY'' \<mapsto> ''anon-key'']"

definition alice :: auth_user where
  "alice = \<lparr>u_id = ''alice'', u_email = ''alice@example.com''\<rparr>"

definition bob :: auth_user where
  "bob = \<lparr>u_id = ''bob'', u_email = ''bob@example.com''\<rparr>"

definition lunch :: Poll where
  "lunch =
     \<lparr>p_id = ''p1'', p_question = lit ''Where to eat?'', p_description = None,
      p_options = [\<lparr>o_id = ''o1'', o_text = lit ''Pizza'', o_votes = Some 2\<rparr>,
                   \<lparr>o_id = ''o2'', o_text = lit ''Sushi'', o_votes = None\<rparr>],
      p_user_id = ''alice'', p_created_at = ''2025-01-01T00:00:00Z'', p_updated_at = None\<rparr>"

definition carol :: auth_user where
  "carol = \<lparr>u_id = ''carol'', u_email = ''carol@example.com''\<rparr>"

definition dave :: auth_user where
  "dave = \<lparr>u_id = ''dave'', u_email = ''dave@example.com''\<rparr>"

text \<open>
  The poll \<open>lunch\<close> is stored under the id p1; carol is an admin, bob has the role user and
  nobody else has a role row.
\<close>

definition lunch_backend :: "auth_user option \<Rightarrow> backend" where
  "lunch_backend caller =
     idle_backend
       \<lparr>auth_getUser := \<lparr>auth_user = caller, auth_error = None\<rparr>,
        polls_select_by_id := (\<lambda>pollId. if pollId = ''p1''
                                 then \<lparr>resp_data = Some lunch, resp_error = None\<rparr>
                                 else \<lparr>resp_data = None, resp_error = Some no_rows\<rparr>),
        polls_select_options := (\<lambda>pollId. if pollId = ''p1''
                                 then \<lparr>resp_data = Some (p_options lunch), resp_error = None\<rparr>
                                 else \<lparr>resp_data = None, resp_error = Some no_rows\<rparr>),
        user_roles_select_role := (\<lambda>userId. if userId = ''carol''
                                 then \<lparr>resp_data = Some \<lparr>role = ''admin''\<rparr>, resp_error = None\<rparr>
                                 else if userId = ''bob''
                                 then \<lparr>resp_data = Some \<lparr>role = ''user''\<rparr>, resp_error = None\<rparr>
                                 else \<lparr>resp_data = None, resp_error = Some no_rows\<rparr>)\<rparr>"

text \<open>An admin request whose session the client refreshes while it resolves the user.\<close>

definition admin_request :: NextRequest where
  "admin_request =
     \<lparr>nextUrl = \<lparr>pathname = ''/admin/users'', search = ''?page=2''\<rparr>,
      request_cookies = [''sb-access-token'' \<mapsto> ''stale'']\<rparr>"

definition refreshed :: "cookie list" where
  "refreshed = [(''sb-access-token'', ''fresh'', ''Path=/; HttpOnly'')]"

definition refreshing_backend :: "auth_user option \<Rightarrow> backend" where
  "refreshing_backend caller = (lunch_backend caller)\<lparr>auth_getUser_setAll := [refreshed]\<rparr>"

text \<open>
  A vote by bob that another request stored after this request looked for one: the look-up
  finds no row and the insert violates the constraint \<^verbatim>\<open>UNIQUE(user_id, poll_id)\<close> of the
  schema.
\<close>

definition unique_violation :: backend_error where
  \<open>unique_violation =
     \<lparr>err_code = ''23505'',
      err_message = ''duplicate key value violates unique constraint "votes_user_id_poll_id_key"''\<rparr>\<close>

definition racing_backend :: backend where
  "racing_backend = (lunch_backend (Some bob))\<lparr>votes_insert := (\<lambda>row. Some unique_violation)\<rparr>"

text \<open>A vote by bob that is already stored.\<close>

definition bobs_vote :: VoteRow where
  "bobs_vote = \<lparr>v_id = ''v1'', v_user_id = ''bob'', v_poll_id = ''p1'', v_option_id = ''o2'',
                v_created_at = ''2025-01-02T00:00:00Z''\<rparr>"

definition voted_backend :: backend where
  "voted_backend =
     (lunch_backend (Some bob))
       \<lparr>votes_select := (\<lambda>pollId userId. if pollId = ''p1'' \<and> userId = ''bob''
                            then \<lparr>resp_data = Some bobs_vote, resp_error = None\<rparr>
                            else \<lparr>resp_data = None, resp_error = Some no_rows\<rparr>)\<rparr>"

text \<open>No session: the auth client reports the missing session as an error.\<close>

definition session_missing :: backend_error where
  "session_missing = \<lparr>err_code = [], err_message = ''Auth session missing!''\<rparr>"

definition signed_out_backend :: backend where
  "signed_out_backend =
     idle_backend\<lparr>auth_getUser := \<lparr>auth_user = None, auth_error = Some session_missing\<rparr>\<rparr>"

section \<open>Properties of the validators\<close>

lemmas sanitize_defs =
  DOMPurify_sanitize_def lit_def startsWithCI_def toLowerASCII_def isAsciiLetter_def
  endsTagName_def keptTags_def escapeText_def closeAll_def tagOutput_def tagOpened_def
  tagMode_def

lemma optionTooLong_iff: "optionTooLong xs \<longleftrightarrow> (\<exists>x \<in> set xs. length x > 100)"
  by (induction xs) auto

lemma set_size_eq_length_iff: "card (set xs) = length xs \<longleftrightarrow> distinct xs"
  using card_distinct distinct_card by blast

lemma lit_spaces: "trim (lit ''   '') = []"
  by (simp add: trim_def lit_def isWhiteSpace_def)

lemma trim_replicate_a_gen: "trim (replicate n 0x61) = replicate n 0x61"
  by (simp add: trim_def isWhiteSpace_def)

lemma trim_which: "trim (lit ''  <b>Which</b> one?  '') = lit ''<b>Which</b> one?''"
  by (simp add: trim_def lit_def isWhiteSpace_def)

lemma trim_abc: "trim (lit '' abc'') = lit ''abc''"
  by (simp add: trim_def lit_def isWhiteSpace_def)

lemma sanitize_which:
  "DOMPurify_sanitize (lit ''<b>Which</b> one?'') = lit ''<b>Which</b> one?''"
  by (simp add: sanitize_defs)

text \<open>
  C3 holds of the code in its rules and not in the value it accepts. For every input
  string, \<open>validateQuestion\<close> looks only at the trimmed text: an empty one is rejected with
  the empty-question message, otherwise one shorter than 5 with the too-short message,
  otherwise one longer than 200 with the too-long message, and a trimmed text of length 5
  to 200 is accepted with the sanitizer's output for it as \<open>sanitizedValue\<close>. A rejection
  does not depend on the sanitizer and carries no sanitized value. Three spaces are
  rejected with "Poll question cannot be empty". The accepted value is what the sanitizer
  returns and need not be markup-stripped text: the sanitizer is called with its default
  configuration, which keeps safe tags, so a question in bold is accepted with its
  \<^verbatim>\<open>b\<close> tags in place, although the function's own description promises "HTML tag stripping
  for plain text storage".
\<close>

theorem C3_validateQuestion:
  "(trim q = [] \<longrightarrow>
      validateQuestion sanitize q =
        \<lparr>isValid = False, error = Some ''Poll question cannot be empty'', sanitizedValue = None\<rparr>)
   \<and> (trim q \<noteq> [] \<and> length (trim q) < 5 \<longrightarrow>
      validateQuestion sanitize q =
        \<lparr>isValid = False, error = Some ''Poll question must be at least 5 characters long'',
         sanitizedValue = None\<rparr>)
   \<and> (200 < length (trim q) \<longrightarrow>
      validateQuestion sanitize q =
        \<lparr>isValid = False, error = Some ''Poll question cannot exceed 200 characters'',
         sanitizedValue = None\<rparr>)
   \<and> (5 \<le> length (trim q) \<and> length (trim q) \<le> 200 \<longrightarrow>
      validateQuestion sanitize q =
        \<lparr>isValid = True, error = None, sanitizedValue = Some (sanitize (trim q))\<rparr>)
   \<and> (\<not> isValid (validateQuestion sanitize q) \<longrightarrow>
      validateQuestion sanitize q = validateQuestion sanitize' q)
   \<and> validateQuestion sanitize (lit ''   '') =
        \<lparr>isValid = False, error = Some ''Poll question cannot be empty'', sanitizedValue = None\<rparr>"
  by (auto simp add: validateQuestion_def Let_def lit_spaces)

theorem C3_validateQuestion_witness:
  "validateQuestion DOMPurify_sanitize (lit ''   '') =
     \<lparr>isValid = False, error = Some ''Poll question cannot be empty'', sanitizedValue = None\<rparr>
   \<and> validateQuestion DOMPurify_sanitize (lit '' abc'') =
     \<lparr>isValid = False, error = Some ''Poll question must be at least 5 characters long'',
      sanitizedValue = None\<rparr>
   \<and> validateQuestion DOMPurify_sanitize (replicate 201 0x61) =
     \<lparr>isValid = False, error = Some ''Poll question cannot exceed 200 characters'',
      sanitizedValue = None\<rparr>
   \<and> validateQuestion DOMPurify_sanitize (lit ''  <b>Which</b> one?  '') =
     \<lparr>isValid = True, error = None, sanitizedValue = Some (lit ''<b>Which</b> one?'')\<rparr>
   \<and> validateQuestion DOMPurify_sanitize (lit '' abc'') = validateQuestion id (lit '' abc'')"
proof -
  have a: "trim (lit '' abc'') \<noteq> [] \<and> length (trim (lit '' abc'')) < 5"
    by (simp add: trim_abc) (simp add: lit_def)
  have b: "200 < length (trim (replicate 201 (0x61::jschar)))"
    by (simp add: trim_replicate_a_gen)
  have c: "5 \<le> length (trim (lit ''  <b>Which</b> one?  ''))
           \<and> length (trim (lit ''  <b>Which</b> one?  '')) \<le> 200"
    by (simp add: trim_which) (simp add: lit_def)
  have d: "\<not> isValid (validateQuestion DOMPurify_sanitize (lit '' abc''))"
    using a C3_validateQuestion [of "lit '' abc''" DOMPurify_sanitize] by simp
  show ?thesis
    using a b c d
      C3_validateQuestion [of "lit ''   ''" DOMPurify_sanitize]
      C3_validateQuestion [of "lit '' abc''" DOMPurify_sanitize id]
      C3_validateQuestion [of "replicate 201 0x61" DOMPurify_sanitize]
      C3_validateQuestion [of "lit ''  <b>Which</b> one?  ''" DOMPurify_sanitize]
    by (simp add: trim_which sanitize_which)
qed

lemma remaining_few:
  "filter (\<lambda>opt. opt \<noteq> []) (map trim [lit ''A'', lit '' '']) = [lit ''A'']"
  by (simp add: trim_def lit_def isWhiteSpace_def)

lemma remaining_dup:
  "filter (\<lambda>opt. opt \<noteq> []) (map trim [lit ''Yes'', lit ''Yes '']) = [lit ''Yes'', lit ''Yes'']"
  by (simp add: trim_def lit_def isWhiteSpace_def)

lemma remaining_long:
  "filter (\<lambda>opt. opt \<noteq> []) (map trim [replicate 101 0x61, lit ''A''])
     = [replicate 101 0x61, lit ''A'']"
  by (simp add: trim_replicate_a_gen) (simp add: trim_def lit_def isWhiteSpace_def)

lemma remaining_ok:
  "filter (\<lambda>opt. opt \<noteq> []) (map trim [lit '' Yes '', lit ''<i>No</i>'', lit ''  ''])
     = [lit ''Yes'', lit ''<i>No</i>'']"
  by (simp add: trim_def lit_def isWhiteSpace_def)

lemma sanitize_ok:
  "map DOMPurify_sanitize [lit ''Yes'', lit ''<i>No</i>''] = [lit ''Yes'', lit ''<i>No</i>'']"
  by (simp add: sanitize_defs)

text \<open>
  C4. For every list of strings, \<open>validateOptions\<close> trims the entries and drops the empty
  ones; it rejects fewer than 2 remaining entries, otherwise two equal remaining entries
  (exact comparison of code units), otherwise a remaining entry longer than 100, in this
  order; otherwise it accepts and returns every remaining entry sanitized on its own. The
  list A, a is accepted as A, a; the list Yes, Yes-with-a-trailing-space is rejected with
  "Poll options must be unique".
\<close>

theorem C4_validateOptions:
  "(let remaining = filter (\<lambda>opt. opt \<noteq> []) (map trim opts) in
     (length remaining < 2 \<longrightarrow>
        validateOptions sanitize opts =
          \<lparr>isValid = False, error = Some ''Poll must have at least 2 non-empty options'',
           sanitizedValue = None\<rparr>)
     \<and> (2 \<le> length remaining \<and> \<not> distinct remaining \<longrightarrow>
        validateOptions sanitize opts =
          \<lparr>isValid = False, error = Some ''Poll options must be unique'',
           sanitizedValue = None\<rparr>)
     \<and> (2 \<le> length remaining \<and> distinct remaining \<and> (\<exists>opt \<in> set remaining. 100 < length opt) \<longrightarrow>
        validateOptions sanitize opts =
          \<lparr>isValid = False, error = Some ''Poll options cannot exceed 100 characters'',
           sanitizedValue = None\<rparr>)
     \<and> (2 \<le> length remaining \<and> distinct remaining \<and> (\<forall>opt \<in> set remaining. length opt \<le> 100) \<longrightarrow>
        validateOptions sanitize opts =
          \<lparr>isValid = True, error = None, sanitizedValue = Some (map sanitize remaining)\<rparr>))
   \<and> validateOptions DOMPurify_sanitize [lit ''A'', lit ''a''] =
        \<lparr>isValid = True, error = None, sanitizedValue = Some [lit ''A'', lit ''a'']\<rparr>
   \<and> validateOptions sanitize [lit ''Yes'', lit ''Yes ''] =
        \<lparr>isValid = False, error = Some ''Poll options must be unique'', sanitizedValue = None\<rparr>"
proof -
  have ex_a: "validateOptions DOMPurify_sanitize [lit ''A'', lit ''a''] =
        \<lparr>isValid = True, error = None, sanitizedValue = Some [lit ''A'', lit ''a'']\<rparr>"
    by (simp add: validateOptions_def trim_def isWhiteSpace_def sanitize_defs)
  have ex_b: "validateOptions sanitize [lit ''Yes'', lit ''Yes ''] =
        \<lparr>isValid = False, error = Some ''Poll options must be unique'', sanitizedValue = None\<rparr>"
    by (simp add: validateOptions_def trim_def lit_def isWhiteSpace_def)
  define remaining where "remaining = filter (\<lambda>opt. opt \<noteq> []) (map trim opts)"
  have v: "validateOptions sanitize opts =
     (if length remaining < 2
      then \<lparr>isValid = False, error = Some ''Poll must have at least 2 non-empty options'',
            sanitizedValue = None\<rparr>
      else if \<not> distinct remaining
      then \<lparr>isValid = False, error = Some ''Poll options must be unique'',
            sanitizedValue = None\<rparr>
      else if (\<exists>opt \<in> set remaining. 100 < length opt)
      then \<lparr>isValid = False, error = Some ''Poll options cannot exceed 100 characters'',
            sanitizedValue = None\<rparr>
      else \<lparr>isValid = True, error = None,
            sanitizedValue = Some (map sanitize remaining)\<rparr>)"
    unfolding validateOptions_def Let_def remaining_def [symmetric]
      set_size_eq_length_iff optionTooLong_iff ..
  have gen: "(length remaining < 2 \<longrightarrow>
        validateOptions sanitize opts =
          \<lparr>isValid = False, error = Some ''Poll must have at least 2 non-empty options'',
           sanitizedValue = None\<rparr>)
     \<and> (2 \<le> length remaining \<and> \<not> distinct remaining \<longrightarrow>
        validateOptions sanitize opts =
          \<lparr>isValid = False, error = Some ''Poll options must be unique'',
           sanitizedValue = None\<rparr>)
     \<and> (2 \<le> length remaining \<and> distinct remaining \<and> (\<exists>opt \<in> set remaining. 100 < length opt) \<longrightarrow>
        validateOptions sanitize opts =
          \<lparr>isValid = False, error = Some ''Poll options cannot exceed 100 characters'',
           sanitizedValue = None\<rparr>)
     \<and> (2 \<le> length remaining \<and> distinct remaining \<and> (\<forall>opt \<in> set remaining. length opt \<le> 100) \<longrightarrow>
        validateOptions sanitize opts =
          \<lparr>isValid = True, error = None, sanitizedValue = Some (map sanitize remaining)\<rparr>)"
    unfolding v by (auto simp add: not_le)
  show ?thesis
    unfolding Let_def using gen ex_a ex_b unfolding remaining_def by blast
qed

theorem C4_validateOptions_witness:
  "validateOptions DOMPurify_sanitize [lit ''A'', lit '' ''] =
     \<lparr>isValid = False, error = Some ''Poll must have at least 2 non-empty options'',
      sanitizedValue = None\<rparr>
   \<and> validateOptions DOMPurify_sanitize [lit ''Yes'', lit ''Yes ''] =
     \<lparr>isValid = False, error = Some ''Poll options must be unique'', sanitizedValue = None\<rparr>
   \<and> validateOptions DOMPurify_sanitize [replicate 101 0x61, lit ''A''] =
     \<lparr>isValid = False, error = Some ''Poll options cannot exceed 100 characters'',
      sanitizedValue = None\<rparr>
   \<and> validateOptions DOMPurify_sanitize [lit '' Yes '', lit ''<i>No</i>'', lit ''  ''] =
     \<lparr>isValid = True, error = None,
      sanitizedValue = Some [lit ''Yes'', lit ''<i>No</i>'']\<rparr>"
proof -
  have long: "distinct [replicate 101 (0x61::jschar), lit ''A'']"
  proof -
    have "length (replicate 101 (0x61::jschar)) \<noteq> length (lit ''A'')"
      by (simp add: lit_def)
    then have "replicate 101 (0x61::jschar) \<noteq> lit ''A''"
      by metis
    then show ?thesis by simp
  qed
  have ok: "distinct [lit ''Yes'', lit ''<i>No</i>'']
            \<and> (\<forall>opt \<in> set [lit ''Yes'', lit ''<i>No</i>'']. length opt \<le> 100)"
    by (simp add: lit_def)
  have dup: "\<not> distinct [lit ''Yes'', lit ''Yes'']"
    by simp
  show ?thesis
    using long ok dup
      C4_validateOptions [of "[lit ''A'', lit '' '']" DOMPurify_sanitize]
      C4_validateOptions [of "[lit ''Yes'', lit ''Yes '']" DOMPurify_sanitize]
      C4_validateOptions [of "[replicate 101 0x61, lit ''A'']" DOMPurify_sanitize]
      C4_validateOptions [of "[lit '' Yes '', lit ''<i>No</i>'', lit ''  '']" DOMPurify_sanitize]
    unfolding Let_def remaining_few remaining_dup remaining_long remaining_ok sanitize_ok
    by simp
qed

text \<open>
  C6 as stated fails: the bounds are checked before sanitization, and sanitization can
  shorten a text and make two texts equal. An empty script element is an accepted question
  of 17 code units whose sanitized text is empty, and an accepted pair of distinct options
  can have equal sanitized texts.
\<close>

theorem C6_counterexample:
  "isValid (validateQuestion DOMPurify_sanitize (lit ''<script></script>''))
   \<and> sanitizedValue (validateQuestion DOMPurify_sanitize (lit ''<script></script>'')) = Some []
   \<and> length ([] :: jsstring) < 5
   \<and> isValid (validateOptions DOMPurify_sanitize [lit ''<script></script>A'', lit ''A''])
   \<and> sanitizedValue (validateOptions DOMPurify_sanitize [lit ''<script></script>A'', lit ''A''])
       = Some [lit ''A'', lit ''A'']
   \<and> \<not> distinct [lit ''A'', lit ''A'']"
  by (simp add: validateQuestion_def validateOptions_def trim_def isWhiteSpace_def
      sanitize_defs)

text \<open>
  C6, amended. What an accepted input satisfies is the invariant on the trimmed text, before
  sanitization: the trimmed question has length 5 to 200 and \<open>sanitizedValue\<close> is the
  sanitizer's output for it; the trimmed non-empty options are at least 2, pairwise
  distinct, each non-empty and of length at most 100, and the sanitized list is the
  sanitizer's output for each of them in order, so it has at least 2 entries.
\<close>

theorem C6_accepted_input_invariant:
  "(isValid (validateQuestion sanitize q) \<longrightarrow>
      5 \<le> length (trim q) \<and> length (trim q) \<le> 200
      \<and> sanitizedValue (validateQuestion sanitize q) = Some (sanitize (trim q)))
   \<and> (isValid (validateOptions sanitize opts) \<longrightarrow>
      (let remaining = filter (\<lambda>opt. opt \<noteq> []) (map trim opts) in
        2 \<le> length remaining \<and> distinct remaining
        \<and> (\<forall>opt \<in> set remaining. opt \<noteq> [] \<and> length opt \<le> 100)
        \<and> sanitizedValue (validateOptions sanitize opts) = Some (map sanitize remaining)
        \<and> 2 \<le> length (map sanitize remaining)))"
proof -
  have q: "isValid (validateQuestion sanitize q) \<longrightarrow>
      5 \<le> length (trim q) \<and> length (trim q) \<le> 200
      \<and> sanitizedValue (validateQuestion sanitize q) = Some (sanitize (trim q))"
    by (simp add: validateQuestion_def Let_def)
  define remaining where "remaining = filter (\<lambda>opt. opt \<noteq> []) (map trim opts)"
  have ne: "\<forall>opt \<in> set remaining. opt \<noteq> []"
    unfolding remaining_def by simp
  have v: "validateOptions sanitize opts =
     (if length remaining < 2
      then \<lparr>isValid = False, error = Some ''Poll must have at least 2 non-empty options'',
            sanitizedValue = None\<rparr>
      else if \<not> distinct remaining
      then \<lparr>isValid = False, error = Some ''Poll options must be unique'',
            sanitizedValue = None\<rparr>
      else if (\<exists>opt \<in> set remaining. 100 < length opt)
      then \<lparr>isValid = False, error = Some ''Poll options cannot exceed 100 characters'',
            sanitizedValue = None\<rparr>
      else \<lparr>isValid = True, error = None,
            sanitizedValue = Some (map sanitize remaining)\<rparr>)"
    unfolding validateOptions_def Let_def remaining_def [symmetric]
      set_size_eq_length_iff optionTooLong_iff ..
  have o: "isValid (validateOptions sanitize opts) \<longrightarrow>
        2 \<le> length remaining \<and> distinct remaining
        \<and> (\<forall>opt \<in> set remaining. opt \<noteq> [] \<and> length opt \<le> 100)
        \<and> sanitizedValue (validateOptions sanitize opts) = Some (map sanitize remaining)
        \<and> 2 \<le> length (map sanitize remaining)"
    unfolding v using ne by (auto simp add: not_le not_less)
  show ?thesis
    unfolding Let_def using q o unfolding remaining_def by blast
qed

theorem C6_accepted_input_invariant_witness:
  "5 \<le> length (trim (lit ''  <b>Which</b> one?  ''))
   \<and> length (trim (lit ''  <b>Which</b> one?  '')) \<le> 200
   \<and> sanitizedValue (validateQuestion DOMPurify_sanitize (lit ''  <b>Which</b> one?  ''))
       = Some (lit ''<b>Which</b> one?'')
   \<and> distinct [lit ''Yes'', lit ''<i>No</i>'']
   \<and> sanitizedValue
        (validateOptions DOMPurify_sanitize [lit '' Yes '', lit ''<i>No</i>'', lit ''  ''])
       = Some [lit ''Yes'', lit ''<i>No</i>'']"
proof -
  have q: "isValid (validateQuestion DOMPurify_sanitize (lit ''  <b>Which</b> one?  ''))"
    by (simp add: validateQuestion_def trim_which) (simp add: lit_def)
  have o: "isValid
      (validateOptions DOMPurify_sanitize [lit '' Yes '', lit ''<i>No</i>'', lit ''  ''])"
    by (simp add: validateOptions_def trim_def lit_def isWhiteSpace_def)
  show ?thesis
    using q o
      C6_accepted_input_invariant
        [of DOMPurify_sanitize "lit ''  <b>Which</b> one?  ''"
            "[lit '' Yes '', lit ''<i>No</i>'', lit ''  '']"]
    unfolding Let_def remaining_ok sanitize_ok trim_which sanitize_which
    by simp
qed

section \<open>Properties of the actions\<close>

lemma createClient_configured: "createClient configured (\<lambda>url key. b) = Inr b"
  by (simp add: createClient_def getEnvVariable_def configured_def)

text \<open>
  C1. For every stored poll (the client exists and the fetch by id returns the row) and
  every caller, \<open>getPollById\<close> returns the row itself, owner id included, exactly when the
  caller is signed in and is the owner or has a role row with role admin; for every other
  caller, and for an anonymous one, it returns the projection that holds only id,
  question, options and created_at.
\<close>

theorem C1_getPollById_projection:
  assumes "createClient env createServerClient = Inr supabase"
    and "polls_select_by_id supabase pollId = \<lparr>resp_data = Some p, resp_error = None\<rparr>"
  shows "\<exists>calls. getPollById env createServerClient pollId =
      Inr (\<lparr>poll = Some
              (if (case auth_user (auth_getUser supabase) of
                     None \<Rightarrow> False
                   | Some u \<Rightarrow>
                       u_id u = p_user_id p
                       \<or> (case resp_data (user_roles_select_role supabase (u_id u)) of
                             None \<Rightarrow> False
                           | Some r \<Rightarrow> role r = ''admin''))
               then Full p
               else Public \<lparr>pub_id = p_id p, pub_question = p_question p,
                            pub_options = p_options p, pub_created_at = p_created_at p\<rparr>),
             poll_error = None,
             isOwner = Some (case auth_user (auth_getUser supabase) of
                               None \<Rightarrow> False
                             | Some u \<Rightarrow> u_id u = p_user_id p)\<rparr>,
           calls)"
  using assms
  by (simp add: getPollById_def limited_def Let_def split: option.splits)

theorem C1_getPollById_projection_witness:
  "(\<exists>calls. getPollById configured (\<lambda>url key. lunch_backend (Some alice)) ''p1'' =
      Inr (\<lparr>poll = Some (Full lunch), poll_error = None, isOwner = Some True\<rparr>, calls))
   \<and> (\<exists>calls. getPollById configured (\<lambda>url key. lunch_backend (Some carol)) ''p1'' =
      Inr (\<lparr>poll = Some (Full lunch), poll_error = None, isOwner = Some False\<rparr>, calls))
   \<and> (\<exists>calls. getPollById configured (\<lambda>url key. lunch_backend (Some bob)) ''p1'' =
      Inr (\<lparr>poll = Some (Public \<lparr>pub_id = ''p1'', pub_question = lit ''Where to eat?'',
                                   pub_options = p_options lunch,
                                   pub_created_at = ''2025-01-01T00:00:00Z''\<rparr>),
             poll_error = None, isOwner = Some False\<rparr>, calls))
   \<and> (\<exists>calls. getPollById configured (\<lambda>url key. lunch_backend None) ''p1'' =
      Inr (\<lparr>poll = Some (Public \<lparr>pub_id = ''p1'', pub_question = lit ''Where to eat?'',
                                   pub_options = p_options lunch,
                                   pub_created_at = ''2025-01-01T00:00:00Z''\<rparr>),
             poll_error = None, isOwner = Some False\<rparr>, calls))"
proof -
  have sel: "\<And>c. polls_select_by_id (lunch_backend c) ''p1''
               = \<lparr>resp_data = Some lunch, resp_error = None\<rparr>"
    by (simp add: lunch_backend_def)
  show ?thesis
    using
      C1_getPollById_projection [OF createClient_configured sel, of "Some alice"]
      C1_getPollById_projection [OF createClient_configured sel, of "Some carol"]
      C1_getPollById_projection [OF createClient_configured sel, of "Some bob"]
      C1_getPollById_projection [OF createClient_configured sel, of None]
    by (simp add: lunch_backend_def alice_def bob_def carol_def lunch_def)
qed

lemma fold_request_cookies_nextUrl:
  "nextUrl (fold (\<lambda>(name, val, opts) r.
              r\<lparr>request_cookies := (request_cookies r)(name \<mapsto> val)\<rparr>) cs rq) = nextUrl rq"
  by (induction cs arbitrary: rq) (auto split: prod.splits)

lemma fold_response_cookies_kind:
  "kind (fold (\<lambda>(name, val, opts) r.
           r\<lparr>response_cookies := (response_cookies r)(name \<mapsto> (val, opts))\<rparr>) cs rs) = kind rs"
  by (induction cs arbitrary: rs) (auto split: prod.splits)

lemma setAll_nextUrl: "nextUrl (fst (setAll cs st)) = nextUrl (fst st)"
  by (simp add: setAll_def Let_def fold_request_cookies_nextUrl)

lemma setAll_kind: "kind (snd (setAll cs st)) = Next (fst (setAll cs st))"
  by (simp add: setAll_def Let_def fold_response_cookies_kind NextResponse_next_def)

lemma fold_setAll_nextUrl: "nextUrl (fst (fold setAll bs st)) = nextUrl (fst st)"
  by (induction bs arbitrary: st) (simp_all add: setAll_nextUrl)

lemma fold_setAll_kind:
  "kind (snd st) = Next (fst st) \<Longrightarrow> kind (snd (fold setAll bs st)) = Next (fst (fold setAll bs st))"
  by (induction bs arbitrary: st) (simp_all add: setAll_kind)

lemma checkAdminAccess_kind:
  "kind (checkAdminAccess env createServerClient request) =
     (case (if env ''NEXT_PUBLIC_SUPABASE_URL'' = Some [] then None
            else env ''NEXT_PUBLIC_SUPABASE_URL'') of
        None \<Rightarrow> Redirect ((nextUrl request)\<lparr>pathname := ''/login''\<rparr>)
      | Some supabaseUrl \<Rightarrow>
          (case (if env ''NEXT_PUBLIC_SUPABASE_ANON_KEY'' = Some [] then None
                 else env ''NEXT_PUBLIC_SUPABASE_ANON_KEY'') of
             None \<Rightarrow> Redirect ((nextUrl request)\<lparr>pathname := ''/login''\<rparr>)
           | Some supabaseAnonKey \<Rightarrow>
               (let supabase = createServerClient supabaseUrl supabaseAnonKey in
                case auth_user (auth_getUser supabase) of
                  None \<Rightarrow> Redirect ((nextUrl request)\<lparr>pathname := ''/login''\<rparr>)
                | Some user \<Rightarrow>
                    (let looked = user_roles_select_role supabase (u_id user) in
                     if resp_error looked \<noteq> None \<or> resp_data looked = None
                        \<or> map_option role (resp_data looked) \<noteq> Some ''admin''
                     then Redirect ((nextUrl request)\<lparr>pathname := ''/unauthorized''\<rparr>)
                     else Next (fst (fold setAll (auth_getUser_setAll supabase)
                                  (request, NextResponse_next request)))))))"
  by (auto simp add: checkAdminAccess_def Let_def NextResponse_redirect_def fold_setAll_nextUrl
      fold_setAll_kind NextResponse_next_def split: option.splits)

text \<open>
  C2. \<open>checkAdminAccess\<close> redirects to /login when the credentials are not configured or no
  user is resolved; it redirects to /unauthorized when a user is resolved and the role
  look-up reports an error, returns no row, or returns a role other than admin; it lets
  the request through when the look-up returns the role admin without error, and only
  then. Its answer is always one of these three, whatever the look-up returns. The
  middleware hands every request whose path starts with /admin to it.
\<close>

theorem C2_checkAdminAccess_decision:
  "(env ''NEXT_PUBLIC_SUPABASE_URL'' = None \<or> env ''NEXT_PUBLIC_SUPABASE_URL'' = Some []
      \<or> env ''NEXT_PUBLIC_SUPABASE_ANON_KEY'' = None
      \<or> env ''NEXT_PUBLIC_SUPABASE_ANON_KEY'' = Some [] \<longrightarrow>
      kind (checkAdminAccess env createServerClient request)
        = Redirect ((nextUrl request)\<lparr>pathname := ''/login''\<rparr>))
   \<and> (\<forall>supabaseUrl supabaseAnonKey.
        env ''NEXT_PUBLIC_SUPABASE_URL'' = Some supabaseUrl \<and> supabaseUrl \<noteq> []
        \<and> env ''NEXT_PUBLIC_SUPABASE_ANON_KEY'' = Some supabaseAnonKey \<and> supabaseAnonKey \<noteq> [] \<longrightarrow>
        (let supabase = createServerClient supabaseUrl supabaseAnonKey in
          (auth_user (auth_getUser supabase) = None \<longrightarrow>
             kind (checkAdminAccess env createServerClient request)
               = Redirect ((nextUrl request)\<lparr>pathname := ''/login''\<rparr>))
          \<and> (\<forall>user. auth_user (auth_getUser supabase) = Some user \<longrightarrow>
             (let looked = user_roles_select_role supabase (u_id user) in
               (resp_error looked \<noteq> None \<or> resp_data looked = None
                  \<or> (\<exists>r. resp_data looked = Some r \<and> role r \<noteq> ''admin'') \<longrightarrow>
                  kind (checkAdminAccess env createServerClient request)
                    = Redirect ((nextUrl request)\<lparr>pathname := ''/unauthorized''\<rparr>))
               \<and> (resp_error looked = None
                  \<and> (\<exists>r. resp_data looked = Some r \<and> role r = ''admin'') \<longrightarrow>
                  (\<exists>forwarded. kind (checkAdminAccess env createServerClient request)
                     = Next forwarded))))))
   \<and> (kind (checkAdminAccess env createServerClient request)
         = Redirect ((nextUrl request)\<lparr>pathname := ''/login''\<rparr>)
       \<or> kind (checkAdminAccess env createServerClient request)
         = Redirect ((nextUrl request)\<lparr>pathname := ''/unauthorized''\<rparr>)
       \<or> (\<exists>forwarded. kind (checkAdminAccess env createServerClient request) = Next forwarded))
   \<and> ((\<exists>forwarded. kind (checkAdminAccess env createServerClient request) = Next forwarded) \<longrightarrow>
        (\<exists>supabaseUrl supabaseAnonKey user r.
           env ''NEXT_PUBLIC_SUPABASE_URL'' = Some supabaseUrl
           \<and> env ''NEXT_PUBLIC_SUPABASE_ANON_KEY'' = Some supabaseAnonKey
           \<and> auth_user (auth_getUser (createServerClient supabaseUrl supabaseAnonKey)) = Some user
           \<and> user_roles_select_role (createServerClient supabaseUrl supabaseAnonKey) (u_id user)
               = \<lparr>resp_data = Some r, resp_error = None\<rparr>
           \<and> role r = ''admin''))
   \<and> (take (length ''/admin'') (pathname (nextUrl request)) = ''/admin'' \<longrightarrow>
        middleware updateSession env createServerClient request
          = checkAdminAccess env createServerClient request)"
proof -
  have without_credentials: "env ''NEXT_PUBLIC_SUPABASE_URL'' = None \<or> env ''NEXT_PUBLIC_SUPABASE_URL'' = Some []
      \<or> env ''NEXT_PUBLIC_SUPABASE_ANON_KEY'' = None
      \<or> env ''NEXT_PUBLIC_SUPABASE_ANON_KEY'' = Some [] \<longrightarrow>
      kind (checkAdminAccess env createServerClient request)
        = Redirect ((nextUrl request)\<lparr>pathname := ''/login''\<rparr>)"
    unfolding checkAdminAccess_kind by (auto split: option.splits)
  have with_credentials: "\<forall>supabaseUrl supabaseAnonKey.
        env ''NEXT_PUBLIC_SUPABASE_URL'' = Some supabaseUrl \<and> supabaseUrl \<noteq> []
        \<and> env ''NEXT_PUBLIC_SUPABASE_ANON_KEY'' = Some supabaseAnonKey \<and> supabaseAnonKey \<noteq> [] \<longrightarrow>
        (let supabase = createServerClient supabaseUrl supabaseAnonKey in
          (auth_user (auth_getUser supabase) = None \<longrightarrow>
             kind (checkAdminAccess env createServerClient request)
               = Redirect ((nextUrl request)\<lparr>pathname := ''/login''\<rparr>))
          \<and> (\<forall>user. auth_user (auth_getUser supabase) = Some user \<longrightarrow>
             (let looked = user_roles_select_role supabase (u_id user) in
               (resp_error looked \<noteq> None \<or> resp_data looked = None
                  \<or> (\<exists>r. resp_data looked = Some r \<and> role r \<noteq> ''admin'') \<longrightarrow>
                  kind (checkAdminAccess env createServerClient request)
                    = Redirect ((nextUrl request)\<lparr>pathname := ''/unauthorized''\<rparr>))
               \<and> (resp_error looked = None
                  \<and> (\<exists>r. resp_data looked = Some r \<and> role r = ''admin'') \<longrightarrow>
                  (\<exists>forwarded. kind (checkAdminAccess env createServerClient request)
                     = Next forwarded)))))"
    unfolding checkAdminAccess_kind Let_def by auto
  have total: "kind (checkAdminAccess env createServerClient request)
         = Redirect ((nextUrl request)\<lparr>pathname := ''/login''\<rparr>)
       \<or> kind (checkAdminAccess env createServerClient request)
         = Redirect ((nextUrl request)\<lparr>pathname := ''/unauthorized''\<rparr>)
       \<or> (\<exists>forwarded. kind (checkAdminAccess env createServerClient request) = Next forwarded)"
    unfolding checkAdminAccess_kind Let_def by (simp split: option.splits)
  have only_admin: "(\<exists>forwarded. kind (checkAdminAccess env createServerClient request) = Next forwarded) \<longrightarrow>
        (\<exists>supabaseUrl supabaseAnonKey user r.
           env ''NEXT_PUBLIC_SUPABASE_URL'' = Some supabaseUrl
           \<and> env ''NEXT_PUBLIC_SUPABASE_ANON_KEY'' = Some supabaseAnonKey
           \<and> auth_user (auth_getUser (createServerClient supabaseUrl supabaseAnonKey)) = Some user
           \<and> user_roles_select_role (createServerClient supabaseUrl supabaseAnonKey) (u_id user)
               = \<lparr>resp_data = Some r, resp_error = None\<rparr>
           \<and> role r = ''admin'')"
    unfolding checkAdminAccess_kind Let_def
    by (auto split: option.splits if_splits intro!: response.equality)
  have routed: "take (length ''/admin'') (pathname (nextUrl request)) = ''/admin'' \<longrightarrow>
        middleware updateSession env createServerClient request
          = checkAdminAccess env createServerClient request"
    by (simp add: middleware_def)
  show ?thesis
    using without_credentials with_credentials total only_admin routed by blast
qed

theorem C2_checkAdminAccess_decision_witness:
  "kind (checkAdminAccess configured (\<lambda>url key. refreshing_backend None) admin_request)
     = Redirect \<lparr>pathname = ''/login'', search = ''?page=2''\<rparr>
   \<and> kind (checkAdminAccess configured (\<lambda>url key. refreshing_backend (Some bob)) admin_request)
     = Redirect \<lparr>pathname = ''/unauthorized'', search = ''?page=2''\<rparr>
   \<and> kind (checkAdminAccess configured (\<lambda>url key. refreshing_backend (Some dave)) admin_request)
     = Redirect \<lparr>pathname = ''/unauthorized'', search = ''?page=2''\<rparr>
   \<and> (\<exists>forwarded.
        kind (checkAdminAccess configured (\<lambda>url key. refreshing_backend (Some carol)) admin_request)
          = Next forwarded)
   \<and> kind (checkAdminAccess Map.empty (\<lambda>url key. refreshing_backend (Some carol)) admin_request)
     = Redirect \<lparr>pathname = ''/login'', search = ''?page=2''\<rparr>
   \<and> middleware (\<lambda>request. NextResponse_next request) configured
         (\<lambda>url key. refreshing_backend (Some carol)) admin_request
     = checkAdminAccess configured (\<lambda>url key. refreshing_backend (Some carol)) admin_request"
  using
    C2_checkAdminAccess_decision
      [of configured "\<lambda>url key. refreshing_backend None" admin_request]
    C2_checkAdminAccess_decision
      [of configured "\<lambda>url key. refreshing_backend (Some bob)" admin_request]
    C2_checkAdminAccess_decision
      [of configured "\<lambda>url key. refreshing_backend (Some dave)" admin_request]
    C2_checkAdminAccess_decision
      [of configured "\<lambda>url key. refreshing_backend (Some carol)" admin_request
          "\<lambda>request. NextResponse_next request"]
    C2_checkAdminAccess_decision
      [of Map.empty "\<lambda>url key. refreshing_backend (Some carol)" admin_request]
  by (simp add: configured_def refreshing_backend_def lunch_backend_def idle_backend_def
      admin_request_def bob_def carol_def dave_def Let_def)

text \<open>
  C5 as stated fails in its last part: when the look-up finds no vote and the store then
  rejects the insert for the uniqueness constraint, both versions return the store's own
  message, not "You have already voted on this poll.".
\<close>

theorem C5_counterexample:
  "submitVote_index configured (\<lambda>url key. racing_backend) ''p1'' 0
     = Inr (ErrorResult (Some (err_message unique_violation)),
            [Auth_getUser, Votes_select ''p1'' ''bob'',
             Votes_insert [(''poll_id'', Text ''p1''), (''user_id'', Text ''bob''),
                           (''option_index'', Number 0)]])
   \<and> submitVote configured (\<lambda>url key. racing_backend) ''p1'' ''o1''
     = Inr (ErrorResult (Some (err_message unique_violation)),
            [Auth_getUser, Votes_select ''p1'' ''bob'', Polls_select_options ''p1'',
             Votes_insert [(''user_id'', Text ''bob''), (''poll_id'', Text ''p1''),
                           (''option_id'', Text ''o1'')]])
   \<and> err_message unique_violation \<noteq> ''You have already voted on this poll.''"
  by (simp add: submitVote_index_def submitVote_def createClient_configured racing_backend_def
      lunch_backend_def idle_backend_def bob_def no_rows_def unique_violation_def Let_def)

text \<open>
  C5, amended. For every signed-in caller, both versions of \<open>submitVote\<close> first look for a
  vote of the caller on the poll. If the look-up returns one, the result is "You have
  already voted on this poll." and no write is sent. An insert is sent only when the
  look-up returned no row, and when the store rejects that insert the result is the
  store's own error message.
\<close>

theorem C5_vote_guard:
  assumes "createClient env createServerClient = Inr supabase"
    and "auth_getUser supabase = \<lparr>auth_user = Some user, auth_error = None\<rparr>"
    and "run = submitVote_index env createServerClient pollId optionIndex
         \<or> run = submitVote env createServerClient pollId optionId"
  shows "\<exists>result calls. run = Inr (result, calls)
      \<and> take 2 calls = [Auth_getUser, Votes_select pollId (u_id user)]
      \<and> (\<forall>v. votes_select supabase pollId (u_id user)
                = \<lparr>resp_data = Some v, resp_error = None\<rparr> \<longrightarrow>
             result = ErrorResult (Some ''You have already voted on this poll.'')
             \<and> filter isWrite calls = [])
      \<and> (\<forall>row. Votes_insert row \<in> set calls \<longrightarrow>
             resp_data (votes_select supabase pollId (u_id user)) = None
             \<and> (\<forall>err. votes_insert supabase row = Some err \<longrightarrow>
                    result = ErrorResult (Some (err_message err))))"
proof -
  have idx: ?thesis if "run = submitVote_index env createServerClient pollId optionIndex"
    using assms(1,2) that
    by (auto simp add: submitVote_index_def Let_def split: option.splits)
  have byid: ?thesis if "run = submitVote env createServerClient pollId optionId"
    using assms(1,2) that
    by (auto simp add: submitVote_def Let_def split: option.splits)
  show ?thesis
    using assms(3) idx byid by blast
qed

theorem C5_vote_guard_witness:
  "(\<exists>calls. submitVote_index configured (\<lambda>url key. voted_backend) ''p1'' 1
       = Inr (ErrorResult (Some ''You have already voted on this poll.''), calls)
       \<and> filter isWrite calls = [])
   \<and> (\<exists>calls. submitVote configured (\<lambda>url key. voted_backend) ''p1'' ''o2''
       = Inr (ErrorResult (Some ''You have already voted on this poll.''), calls)
       \<and> filter isWrite calls = [])"
proof -
  have user: "auth_getUser voted_backend = \<lparr>auth_user = Some bob, auth_error = None\<rparr>"
    by (simp add: voted_backend_def lunch_backend_def)
  have existing: "votes_select voted_backend ''p1'' (u_id bob)
                    = \<lparr>resp_data = Some bobs_vote, resp_error = None\<rparr>"
    by (simp add: voted_backend_def bob_def)
  show ?thesis
    using existing
      C5_vote_guard [OF createClient_configured user disjI1 [OF refl], of "''p1''" 1]
      C5_vote_guard [OF createClient_configured user disjI2 [OF refl], of "''p1''" "''o2''"]
    by auto
qed

text \<open>
  C7 does not hold of the code: every redirect is a new response without cookies, so the
  cookies that \<open>setAll\<close> put on \<open>response\<close> reach the browser only when the request is let
  through.
\<close>

theorem C7_redirects_carry_no_cookies:
  "kind (checkAdminAccess env createServerClient request) = Redirect target \<Longrightarrow>
   response_cookies (checkAdminAccess env createServerClient request) = Map.empty"
  by (auto simp add: checkAdminAccess_def Let_def NextResponse_redirect_def fold_setAll_kind
      NextResponse_next_def split: option.splits if_splits)

theorem C7_redirects_carry_no_cookies_witness:
  "auth_getUser_setAll (refreshing_backend (Some bob)) = [refreshed]
   \<and> kind (checkAdminAccess configured (\<lambda>url key. refreshing_backend (Some bob)) admin_request)
     = Redirect \<lparr>pathname = ''/unauthorized'', search = ''?page=2''\<rparr>
   \<and> response_cookies
        (checkAdminAccess configured (\<lambda>url key. refreshing_backend (Some bob)) admin_request)
     = Map.empty
   \<and> response_cookies
        (checkAdminAccess configured (\<lambda>url key. refreshing_backend (Some carol)) admin_request)
     = [''sb-access-token'' \<mapsto> (''fresh'', ''Path=/; HttpOnly'')]"
proof -
  have k: "kind (checkAdminAccess configured (\<lambda>url key. refreshing_backend (Some bob))
                  admin_request)
             = Redirect \<lparr>pathname = ''/unauthorized'', search = ''?page=2''\<rparr>"
    by (simp add: checkAdminAccess_kind configured_def refreshing_backend_def
        lunch_backend_def idle_backend_def admin_request_def bob_def Let_def)
  have allowed: "response_cookies
        (checkAdminAccess configured (\<lambda>url key. refreshing_backend (Some carol)) admin_request)
     = [''sb-access-token'' \<mapsto> (''fresh'', ''Path=/; HttpOnly'')]"
    by (simp add: checkAdminAccess_def configured_def refreshing_backend_def lunch_backend_def
        idle_backend_def admin_request_def carol_def refreshed_def setAll_def
        NextResponse_next_def NextResponse_redirect_def Let_def)
  have b: "auth_getUser_setAll (refreshing_backend (Some bob)) = [refreshed]"
    by (simp add: refreshing_backend_def)
  show ?thesis
    using k allowed b C7_redirects_carry_no_cookies [OF k] by simp
qed

text \<open>
  C8 does not hold of the code: without the backend credentials \<open>createClient\<close> throws, and
  only \<open>login\<close> catches the exception. \<open>register\<close>, \<open>submitVote\<close> and \<open>getPollById\<close> let it
  pass to their caller.
\<close>

theorem C8_register_throws_without_credentials:
  "register Map.empty createServerClient data
     = Inl (JsError ''Environment variable NEXT_PUBLIC_SUPABASE_URL is not set'')
   \<and> login Map.empty createServerClient credentials
     = Inr (ErrorResult (Some
         ''Authentication service unavailable. Please check your Supabase configuration.''), [])
   \<and> submitVote Map.empty createServerClient pollId optionId
     = Inl (JsError ''Environment variable NEXT_PUBLIC_SUPABASE_URL is not set'')
   \<and> getPollById Map.empty createServerClient pollId
     = Inl (JsError ''Environment variable NEXT_PUBLIC_SUPABASE_URL is not set'')"
  by (simp add: register_def login_def submitVote_def getPollById_def createClient_def
      getEnvVariable_def)

text \<open>
  C9. The two versions of \<open>submitVote\<close> differ for the signed-in caller bob and the stored
  poll p1 with no earlier vote: the index version sends one write, the insert of a vote
  row with \<^verbatim>\<open>option_index\<close>, and returns \<^verbatim>\<open>{ error: null }\<close>; the id version sends the insert
  of a vote row with \<^verbatim>\<open>option_id\<close> and then an update of the poll's options with the chosen
  counter raised by one, and returns \<^verbatim>\<open>{ success: true }\<close>.
\<close>

theorem C9_submitVote_versions_differ:
  "auth_getUser (lunch_backend (Some bob)) = \<lparr>auth_user = Some bob, auth_error = None\<rparr>
   \<and> submitVote_index configured (\<lambda>url key. lunch_backend (Some bob)) ''p1'' 0
     = Inr (ErrorResult None,
            [Auth_getUser, Votes_select ''p1'' ''bob'',
             Votes_insert [(''poll_id'', Text ''p1''), (''user_id'', Text ''bob''),
                           (''option_index'', Number 0)]])
   \<and> submitVote configured (\<lambda>url key. lunch_backend (Some bob)) ''p1'' ''o1''
     = Inr (SuccessResult True,
            [Auth_getUser, Votes_select ''p1'' ''bob'', Polls_select_options ''p1'',
             Votes_insert [(''user_id'', Text ''bob''), (''poll_id'', Text ''p1''),
                           (''option_id'', Text ''o1'')],
             Polls_update_options ''p1''
               [\<lparr>o_id = ''o1'', o_text = lit ''Pizza'', o_votes = Some 3\<rparr>,
                \<lparr>o_id = ''o2'', o_text = lit ''Sushi'', o_votes = None\<rparr>],
             RevalidatePath ''/polls/p1''])"
  by (simp add: submitVote_index_def submitVote_def createClient_configured lunch_backend_def
      idle_backend_def bob_def no_rows_def lunch_def countVote_def Let_def)

text \<open>
  C10 as stated fails: both versions test the error of \<^verbatim>\<open>auth.getUser\<close> before they test the
  user, so a caller without a session, for whom the auth client reports an error, gets that
  error's message.
\<close>

theorem C10_counterexample:
  "auth_user (auth_getUser signed_out_backend) = None
   \<and> submitVote_index configured (\<lambda>url key. signed_out_backend) ''p1'' 0
     = Inr (ErrorResult (Some ''Auth session missing!''), [Auth_getUser])
   \<and> submitVote configured (\<lambda>url key. signed_out_backend) ''p1'' ''o1''
     = Inr (ErrorResult (Some ''Auth session missing!''), [Auth_getUser])
   \<and> ''Auth session missing!'' \<noteq> ''You must be logged in to vote.''"
  by (simp add: submitVote_index_def submitVote_def createClient_configured
      signed_out_backend_def idle_backend_def session_missing_def)

text \<open>
  C10, amended. For every call of either version in which the client exists and no user is
  resolved, the result is the message of the error that \<^verbatim>\<open>auth.getUser\<close> reported, or "You
  must be logged in to vote." when it reported none; no request is sent to the votes or
  polls tables and no write is sent at all.
\<close>

theorem C10_anonymous_vote:
  assumes "createClient env createServerClient = Inr supabase"
    and "auth_user (auth_getUser supabase) = None"
    and "run = submitVote_index env createServerClient pollId optionIndex
         \<or> run = submitVote env createServerClient pollId optionId"
  shows "\<exists>calls. run =
           Inr (ErrorResult (Some (case auth_error (auth_getUser supabase) of
                                     None \<Rightarrow> ''You must be logged in to vote.''
                                   | Some userError \<Rightarrow> err_message userError)), calls)
         \<and> filter onVotesOrPolls calls = [] \<and> filter isWrite calls = []"
  using assms
  by (auto simp add: submitVote_index_def submitVote_def split: option.splits)

theorem C10_anonymous_vote_witness:
  "(\<exists>calls. submitVote_index configured (\<lambda>url key. idle_backend) ''p1'' 0
       = Inr (ErrorResult (Some ''You must be logged in to vote.''), calls)
       \<and> filter onVotesOrPolls calls = [] \<and> filter isWrite calls = [])
   \<and> (\<exists>calls. submitVote configured (\<lambda>url key. idle_backend) ''p1'' ''o1''
       = Inr (ErrorResult (Some ''You must be logged in to vote.''), calls)
       \<and> filter onVotesOrPolls calls = [] \<and> filter isWrite calls = [])"
proof -
  have anonymous: "auth_user (auth_getUser idle_backend) = None"
    by (simp add: idle_backend_def)
  have no_error: "auth_error (auth_getUser idle_backend) = None"
    by (simp add: idle_backend_def)
  show ?thesis
    using no_error
      C10_anonymous_vote [OF createClient_configured anonymous disjI1 [OF refl], of "''p1''" 0]
      C10_anonymous_vote [OF createClient_configured anonymous disjI2 [OF refl], of "''p1''" "''o1''"]
    by simp
qed

end
